theory Spec2Isabelle
  imports Complex_Main "HOL-Library.AList" "HOL-Library.Multiset"
begin

section \<open>Numbers and JSON fields\<close>

text \<open>
  The program is the browser script \<^verbatim>\<open>assets/app.js\<close>. Finite JavaScript numbers are
  modelled as rationals with exact arithmetic. A field read from a decoded JSON document is
  a \<open>jsval\<close>, classified by what \<^verbatim>\<open>Number(v)\<close> makes of it: a missing field
  (\<^verbatim>\<open>undefined\<close>) and a non-numeric value give \<^verbatim>\<open>NaN\<close>, \<^verbatim>\<open>null\<close> gives 0, a number or a
  numeric string gives its value.
\<close>

datatype jsval = Undefined | Null | Numeric rat | NonNumeric

fun Number :: "jsval \<Rightarrow> rat option" where
  "Number Undefined = None"
| "Number Null = Some 0"
| "Number (Numeric r) = Some r"
| "Number NonNumeric = None"

text \<open>
  \<^verbatim>\<open>toNumber(v, fallback)\<close> returns \<^verbatim>\<open>Number(v)\<close> when it is finite and the fallback
  otherwise. The source calls it with a numeric fallback (\<open>toNumber\<close>) and with the
  fallback \<^verbatim>\<open>null\<close> (\<open>toNumber_null\<close>, where \<open>None\<close> is \<^verbatim>\<open>null\<close>).
\<close>

definition toNumber :: "jsval \<Rightarrow> rat \<Rightarrow> rat" where
  "toNumber v fallback = (case Number v of Some n \<Rightarrow> n | None \<Rightarrow> fallback)"

definition toNumber_null :: "jsval \<Rightarrow> rat option" where
  "toNumber_null v = (case Number v of Some n \<Rightarrow> Some n | None \<Rightarrow> None)"

section \<open>Fetch and caching\<close>

text \<open>
  \<^verbatim>\<open>memCache\<close> maps the key \<^verbatim>\<open>"json:" + url\<close> to \<^verbatim>\<open>{ time, data }\<close>. The network is a
  function from the URL to what \<^verbatim>\<open>fetch\<close> delivers: a rejected promise, or a response with
  \<^verbatim>\<open>ok\<close>, \<^verbatim>\<open>status\<close> and body text. \<^verbatim>\<open>JSON.parse\<close> is the parameter \<open>parse\<close>
  (\<open>None\<close> when it throws). The state also logs every URL handed to \<^verbatim>\<open>fetch\<close>.
\<close>

record 'a cache_entry =
  time :: int
  data :: 'a

datatype response = Rejected | Response bool nat string

datatype error = NetworkFailure | HttpError nat string | ParseFailure string

record 'a net_state =
  memCache :: "string \<rightharpoonup> 'a cache_entry"
  requests :: "string list"

definition cache_hit :: "'a net_state \<Rightarrow> string \<Rightarrow> int \<Rightarrow> int \<Rightarrow> 'a option" where
  "cache_hit st key now ttlMs =
     (case memCache st key of
        None \<Rightarrow> None
      | Some hit \<Rightarrow> if ttlMs \<le> 0 \<or> now - time hit < ttlMs then Some (data hit) else None)"

definition fetchJson ::
  "(string \<Rightarrow> 'a option) \<Rightarrow> (string \<Rightarrow> response) \<Rightarrow> int \<Rightarrow> string \<Rightarrow> int \<Rightarrow>
   'a net_state \<Rightarrow> (error + 'a) \<times> 'a net_state" where
  "fetchJson parse net now url ttlMs st =
     (let key = ''json:'' @ url in
      case cache_hit st key now ttlMs of
        Some d \<Rightarrow> (Inr d, st)
      | None \<Rightarrow>
          (let st1 = st\<lparr>requests := requests st @ [url]\<rparr> in
           case net url of
             Rejected \<Rightarrow> (Inl NetworkFailure, st1)
           | Response ok status txt \<Rightarrow>
               if \<not> ok then (Inl (HttpError status url), st1)
               else (case parse txt of
                       None \<Rightarrow> (Inl (ParseFailure url), st1)
                     | Some d \<Rightarrow>
                         (Inr d, st1\<lparr>memCache := (memCache st1)(key \<mapsto> \<lparr>time = now, data = d\<rparr>)\<rparr>))))"

section \<open>Rate-limited gateway\<close>

text \<open>
  \<^verbatim>\<open>adamFetchJson\<close> appends one callback to the promise chain \<^verbatim>\<open>adamQueue\<close>; the chain
  runs the callbacks one after the other in the order they were appended, a rejected
  predecessor being swallowed by \<^verbatim>\<open>.catch(() => {})\<close>. The gateway state holds the clock
  (\<^verbatim>\<open>Date.now()\<close>), \<^verbatim>\<open>adamLastCallMs\<close> and the cache. What the environment decides for one
  call is in the \<open>call\<close> record: how long \<^verbatim>\<open>await fetchJson\<close> takes and by how much the
  timer fires after the requested \<^verbatim>\<open>waitMs\<close>.
\<close>

record 'a gateway =
  clock :: int
  adamLastCallMs :: int
  net_st :: "'a net_state"

record call =
  call_url :: string
  call_ttlMs :: int
  call_latency :: nat
  timer_slack :: nat

record 'a outcome =
  started :: int
  issued :: int
  completed :: int
  result :: "error + 'a"

text \<open>
  One callback of the chain. The assignment \<^verbatim>\<open>adamLastCallMs = Date.now()\<close> follows
  \<^verbatim>\<open>await fetchJson\<close> in the same block, so it is skipped when \<^verbatim>\<open>fetchJson\<close> throws.
\<close>

definition adam_callback ::
  "(string \<Rightarrow> 'a option) \<Rightarrow> (string \<Rightarrow> response) \<Rightarrow> call \<Rightarrow> 'a gateway \<Rightarrow>
   'a outcome \<times> 'a gateway" where
  "adam_callback parse net c g =
     (let now = clock g;
          waitMs = max 0 (5100 - (now - adamLastCallMs g));
          t_issue = (if waitMs \<noteq> 0 then now + waitMs + int (timer_slack c) else now);
          (r, ns) = fetchJson parse net t_issue (call_url c) (call_ttlMs c) (net_st g);
          t_done = t_issue + int (call_latency c);
          out = \<lparr>started = now, issued = t_issue, completed = t_done, result = r\<rparr>
      in case r of
           Inr d \<Rightarrow> (out, g\<lparr>clock := t_done, adamLastCallMs := t_done, net_st := ns\<rparr>)
         | Inl e \<Rightarrow> (out, g\<lparr>clock := t_done, net_st := ns\<rparr>))"

text \<open>The chain for a list of calls queued in this order before the first one settles.\<close>

fun adamFetchJson_queue ::
  "(string \<Rightarrow> 'a option) \<Rightarrow> (string \<Rightarrow> response) \<Rightarrow> call list \<Rightarrow> 'a gateway \<Rightarrow>
   'a outcome list \<times> 'a gateway" where
  "adamFetchJson_queue parse net [] g = ([], g)"
| "adamFetchJson_queue parse net (c # cs) g =
     (let (out, g1) = adam_callback parse net c g;
          (outs, g2) = adamFetchJson_queue parse net cs g1
      in (out # outs, g2))"

section \<open>TypeID resolution\<close>

text \<open>
  The persisted slot \<^verbatim>\<open>eve_typeid_cache_v1\<close> of \<^verbatim>\<open>localStorage\<close> is absent, holds text that
  is not JSON, holds JSON that is not an object, or holds an object \<^verbatim>\<open>{ savedAt, map }\<close>
  whose \<^verbatim>\<open>map\<close> may be missing. The index is a JavaScript object from names to
  numbers, modelled as a map; \<^verbatim>\<open>!map[n]\<close> holds for a missing name and for the value 0.
\<close>

record typeid_cache =
  savedAt :: int
  map_obj :: "(string \<rightharpoonup> int) option"

datatype raw_slot = NoItem | BadJson | NonObject | Obj typeid_cache

record typeid_row =
  typeName :: string
  typeID :: int

record resolver_state =
  storage :: raw_slot
  storage_writable :: bool
  fetch_st :: "typeid_row option list net_state"

definition loadTypeIdCache :: "raw_slot \<Rightarrow> typeid_cache" where
  "loadTypeIdCache raw =
     (case raw of
        NoItem \<Rightarrow> \<lparr>savedAt = 0, map_obj = Some Map.empty\<rparr>
      | BadJson \<Rightarrow> \<lparr>savedAt = 0, map_obj = Some Map.empty\<rparr>
      | NonObject \<Rightarrow> \<lparr>savedAt = 0, map_obj = Some Map.empty\<rparr>
      | Obj parsed \<Rightarrow> parsed)"

text \<open>\<^verbatim>\<open>localStorage.setItem\<close> may throw; the source ignores that.\<close>

definition saveTypeIdCache :: "typeid_cache \<Rightarrow> resolver_state \<Rightarrow> resolver_state" where
  "saveTypeIdCache obj st = (if storage_writable st then st\<lparr>storage := Obj obj\<rparr> else st)"

text \<open>
  \<^verbatim>\<open>chunk(arr, size)\<close> steps through the array by \<^verbatim>\<open>size\<close>. The source calls it with the
  constants 20 and 80 only; with size 0 its loop would not end, which the model cuts off.
\<close>

function chunk :: "'a list \<Rightarrow> nat \<Rightarrow> 'a list list" where
  "chunk arr sz = (if arr = [] \<or> sz = 0 then [] else take sz arr # chunk (drop sz arr) sz)"
  by pat_completeness auto
termination
  by (relation "measure (\<lambda>(arr, sz). length arr)") auto

declare chunk.simps [simp del]

fun join :: "string \<Rightarrow> string list \<Rightarrow> string" where
  "join sep [] = []"
| "join sep [x] = x"
| "join sep (x # y # ys) = x @ sep @ join sep (y # ys)"

definition truthy_id :: "int option \<Rightarrow> bool" where
  "truthy_id v = (case v of None \<Rightarrow> False | Some n \<Rightarrow> n \<noteq> 0)"

definition add_row :: "typeid_row option \<Rightarrow> (string \<rightharpoonup> int) \<Rightarrow> (string \<rightharpoonup> int)" where
  "add_row row m =
     (case row of
        None \<Rightarrow> m
      | Some r \<Rightarrow> if typeName r \<noteq> [] \<and> typeID r \<noteq> 0 then m(typeName r \<mapsto> typeID r) else m)"

text \<open>
  The loop over the chunks: one \<^verbatim>\<open>fetchJson\<close> per chunk with a TTL of 24 hours; the first
  failure leaves the function through the exception. \<^verbatim>\<open>encodeURIComponent\<close> is the
  parameter \<open>enc\<close>.
\<close>

fun resolve_parts ::
  "(string \<Rightarrow> string) \<Rightarrow> (string \<Rightarrow> typeid_row option list option) \<Rightarrow> (string \<Rightarrow> response) \<Rightarrow>
   int \<Rightarrow> string list list \<Rightarrow> (string \<rightharpoonup> int) \<Rightarrow> typeid_row option list net_state \<Rightarrow>
   (error + (string \<rightharpoonup> int)) \<times> typeid_row option list net_state" where
  "resolve_parts enc parse net now [] m ns = (Inr m, ns)"
| "resolve_parts enc parse net now (names # parts) m ns =
     (let q = join ''|'' (map enc names);
          url = ''https://www.fuzzwork.co.uk/api/typeid2.php?typename='' @ q
      in case fetchJson parse net now url (24 * 3600 * 1000) ns of
           (Inl e, ns1) \<Rightarrow> (Inl e, ns1)
         | (Inr rows, ns1) \<Rightarrow> resolve_parts enc parse net now parts (fold add_row rows m) ns1)"

definition resolveTypeIDsByName ::
  "(string \<Rightarrow> string) \<Rightarrow> (string \<Rightarrow> typeid_row option list option) \<Rightarrow> (string \<Rightarrow> response) \<Rightarrow>
   int \<Rightarrow> string list \<Rightarrow> resolver_state \<Rightarrow> (error + (string \<rightharpoonup> int)) \<times> resolver_state" where
  "resolveTypeIDsByName enc parse net now typeNames st =
     (let cacheObj = loadTypeIdCache (storage st);
          m = (case map_obj cacheObj of Some m0 \<Rightarrow> m0 | None \<Rightarrow> Map.empty);
          missing = filter (\<lambda>n. \<not> truthy_id (m n)) typeNames
      in if missing = [] then (Inr m, st)
         else (case resolve_parts enc parse net now (chunk missing 20) m (fetch_st st) of
                 (Inl e, ns) \<Rightarrow> (Inl e, st\<lparr>fetch_st := ns\<rparr>)
               | (Inr m1, ns) \<Rightarrow>
                   (Inr m1, saveTypeIdCache \<lparr>savedAt = now, map_obj = Some m1\<rparr> (st\<lparr>fetch_st := ns\<rparr>))))"

definition persisted_index :: "resolver_state \<Rightarrow> (string \<rightharpoonup> int)" where
  "persisted_index st =
     (case map_obj (loadTypeIdCache (storage st)) of Some m0 \<Rightarrow> m0 | None \<Rightarrow> Map.empty)"

section \<open>Market quotes and material cost\<close>

text \<open>
  A station's aggregates document maps \<^verbatim>\<open>String(typeId)\<close> to a record with the optional
  sides \<^verbatim>\<open>buy\<close> and \<^verbatim>\<open>sell\<close>. A type id is a finite number or \<^verbatim>\<open>null\<close> (\<open>None\<close>).
\<close>

type_synonym tid = "int option"





record total_val =
  name :: string
  qty :: rat

record raw_total = total_val +
  typeId :: tid




section \<open>Cost summary\<close>

text \<open>
  The figures \<^verbatim>\<open>runCalculator\<close> derives after the material cost and the output's unit
  price are known. The form fields and the blueprint's \<^verbatim>\<open>productQuantity\<close> are read with
  \<^verbatim>\<open>toNumber\<close>.
\<close>

record cost_summary =
  totalRuns_s :: rat
  totalCostAllIn :: rat
  totalOutputUnits :: rat
  estRevenue :: "rat option"
  estProfit :: "rat option"
  bpcPerRun :: rat
  bpcPerUnit :: rat
  costPerRun :: rat
  costPerUnit :: rat

definition runCalculator_summary ::
  "jsval \<Rightarrow> jsval \<Rightarrow> jsval \<Rightarrow> rat \<Rightarrow> rat option \<Rightarrow> cost_summary" where
  "runCalculator_summary bpcCostField totalRunsField productQuantity totalMaterialCost outUnitPrice =
     (let bpcCost = toNumber bpcCostField 0;
          totalRuns = max 1 (of_int \<lfloor>toNumber totalRunsField 1\<rfloor>);
          outPerRun = toNumber productQuantity 1;
          allIn = totalMaterialCost + bpcCost;
          units = totalRuns * outPerRun;
          revenue = (case outUnitPrice of None \<Rightarrow> None | Some p \<Rightarrow> Some (p * units));
          profit = (case revenue of None \<Rightarrow> None | Some r \<Rightarrow> Some (r - allIn))
      in \<lparr>totalRuns_s = totalRuns, totalCostAllIn = allIn, totalOutputUnits = units,
          estRevenue = revenue, estProfit = profit,
          bpcPerRun = bpcCost / totalRuns, bpcPerUnit = bpcCost / max units 1,
          costPerRun = allIn / totalRuns, costPerUnit = allIn / max units 1\<rparr>)"

section \<open>Seven-day price statistics\<close>

text \<open>
  A row of the price history has \<^verbatim>\<open>type_id\<close>, \<^verbatim>\<open>price_date\<close> and \<^verbatim>\<open>sell_price_avg\<close>. The
  rows of one type are sorted by \<^verbatim>\<open>String(price_date).localeCompare\<close>; dates are taken
  from any linear order (ISO dates compare as their days do).
\<close>

record 'd history_row =
  type_id :: jsval
  price_date :: 'd
  sell_price_avg :: jsval

record trend_stats =
  first_p :: "rat option"
  last_p :: "rat option"
  min_p :: rat
  max_p :: rat
  avg :: rat
  pct :: "rat option"

definition valid_prices :: "'d history_row list \<Rightarrow> rat list" where
  "valid_prices rows =
     concat (map (\<lambda>r. case toNumber_null (sell_price_avg r) of
                         None \<Rightarrow> []
                       | Some p \<Rightarrow> if p > 0 then [p] else []) rows)"

definition pct_change :: "rat option \<Rightarrow> rat option \<Rightarrow> rat option" where
  "pct_change p0 p1 =
     (case p0 of
        None \<Rightarrow> None
      | Some a \<Rightarrow> (case p1 of
                    None \<Rightarrow> None
                  | Some b \<Rightarrow> if a > 0 then Some ((b - a) / a * 100) else None))"

text \<open>
  The body of the loop over \<^verbatim>\<open>byType.entries()\<close>, the same in \<^verbatim>\<open>loadGasTrends7d\<close> and
  \<^verbatim>\<open>loadBoosterStats7d\<close>: \<open>None\<close> when nothing is stored for the type. Every group holds
  at least one row, so the empty case is never reached.
\<close>

definition stats_of_rows :: "('d::linorder) history_row list \<Rightarrow> trend_stats option" where
  "stats_of_rows rows0 =
     (let rows = sort_key price_date rows0 in
      case rows of
        [] \<Rightarrow> None
      | r # rs \<Rightarrow>
          (let prices = valid_prices rows;
               p0 = toNumber_null (sell_price_avg r);
               p1 = toNumber_null (sell_price_avg (last rows))
           in if prices \<noteq> []
              then Some \<lparr>first_p = p0, last_p = p1, min_p = Min (set prices), max_p = Max (set prices),
                         avg = sum_list prices / of_nat (length prices), pct = pct_change p0 p1\<rparr>
              else None))"

text \<open>Rows grouped by \<^verbatim>\<open>Number(row.type_id)\<close>, groups in order of first appearance.\<close>

definition group_by_type :: "'d history_row list \<Rightarrow> (rat option \<times> 'd history_row list) list" where
  "group_by_type rows =
     map (\<lambda>k. (k, filter (\<lambda>r. Number (type_id r) = k) rows))
         (rev (remdups (rev (map (\<lambda>r. Number (type_id r)) rows))))"

definition loadBoosterStats7d ::
  "('d::linorder) history_row list \<Rightarrow> (rat option \<rightharpoonup> trend_stats) \<Rightarrow> (rat option \<rightharpoonup> trend_stats)" where
  "loadBoosterStats7d rows boosterStats7d =
     fold (\<lambda>(k, rs) st. case stats_of_rows rs of None \<Rightarrow> st | Some s \<Rightarrow> st(k \<mapsto> s))
          (group_by_type rows) boosterStats7d"

definition loadGasTrends7d ::
  "('d::linorder) history_row list \<Rightarrow> (rat option \<rightharpoonup> rat) \<times> (rat option \<rightharpoonup> trend_stats) \<Rightarrow>
   (rat option \<rightharpoonup> rat) \<times> (rat option \<rightharpoonup> trend_stats)" where
  "loadGasTrends7d rows st0 =
     fold (\<lambda>(k, rs) (gasTrends7d, gasStats7d).
             case stats_of_rows rs of
               None \<Rightarrow> (gasTrends7d, gasStats7d)
             | Some s \<Rightarrow>
                 ((case pct s of None \<Rightarrow> gasTrends7d | Some p \<Rightarrow> gasTrends7d(k \<mapsto> p)),
                  gasStats7d(k \<mapsto> s)))
          (group_by_type rows) st0"

section \<open>Materials expansion\<close>

text \<open>
  A blueprint document: \<^verbatim>\<open>activityMaterials\<close> maps activity keys to arrays of material
  lines (the association list is in \<^verbatim>\<open>Object.keys\<close> order; a value that is falsy is
  \<open>None\<close>; the whole field is \<open>None\<close> when it is missing or not an object), and
  \<^verbatim>\<open>blueprintDetails\<close> gives \<^verbatim>\<open>productQuantity\<close> and \<^verbatim>\<open>productTypeName\<close>. A string field that
  is missing or empty is \<open>[]\<close>. A material line holds \<^verbatim>\<open>toNumber(m.typeid, null)\<close>, the
  name and the quantity field. A document that is \<^verbatim>\<open>null\<close> behaves in every use below as one
  without \<^verbatim>\<open>activityMaterials\<close> and without \<^verbatim>\<open>blueprintDetails\<close>.

  \<^verbatim>\<open>fuzzBlueprint\<close> is the repository \<open>repo\<close>: \<open>None\<close> when the fetch throws. It answers the
  same for the same type id throughout one expansion, as the 24-hour cache makes it do.
\<close>

record material =
  typeid :: tid
  mat_name :: string
  quantity :: jsval

record blueprint =
  activityMaterials :: "(string \<times> material list option) list option"
  productQuantity :: jsval
  productTypeName :: string

type_synonym repo = "tid \<Rightarrow> blueprint option"

definition truthy_mats :: "material list option option \<Rightarrow> bool" where
  "truthy_mats v = (case v of Some (Some ms) \<Rightarrow> True | _ \<Rightarrow> False)"

definition pickBlueprintActivity :: "blueprint \<Rightarrow> string option" where
  "pickBlueprintActivity bp =
     (case activityMaterials bp of
        None \<Rightarrow> None
      | Some mats \<Rightarrow>
          if truthy_mats (map_of mats ''1'') then Some ''1''
          else if truthy_mats (map_of mats ''11'') then Some ''11''
          else (case mats of [] \<Rightarrow> None | kv # kvs \<Rightarrow> Some (fst kv)))"

definition truthy_act :: "string option \<Rightarrow> bool" where
  "truthy_act act = (case act of None \<Rightarrow> False | Some a \<Rightarrow> a \<noteq> [])"

definition activity_lines :: "blueprint \<Rightarrow> string \<Rightarrow> material list" where
  "activity_lines bp act =
     (case activityMaterials bp of
        None \<Rightarrow> []
      | Some mats \<Rightarrow> (case map_of mats act of Some (Some ms) \<Rightarrow> ms | _ \<Rightarrow> []))"

text \<open>The template literal \<^verbatim>\<open>`Type ${tid}`\<close>, with the decimal rendering of the id.\<close>

fun digits :: "nat \<Rightarrow> string" where
  "digits n = (if n < 10 then [char_of (48 + n)] else digits (n div 10) @ [char_of (48 + n mod 10)])"

definition show_int :: "int \<Rightarrow> string" where
  "show_int i = (if i < 0 then CHR ''-'' # digits (nat (- i)) else digits (nat i))"

definition type_label :: "tid \<Rightarrow> string" where
  "type_label t = ''Type '' @ (case t of None \<Rightarrow> ''null'' | Some i \<Rightarrow> show_int i)"

text \<open>\<^verbatim>\<open>toLowerCase\<close> on ASCII letters and \<^verbatim>\<open>String.prototype.includes\<close>.\<close>

definition toLowerCase :: "string \<Rightarrow> string" where
  "toLowerCase s =
     map (\<lambda>c. let n = (of_char c :: nat) in if 65 \<le> n \<and> n \<le> 90 then char_of (n + 32) else c) s"

fun starts_with :: "string \<Rightarrow> string \<Rightarrow> bool" where
  "starts_with s [] = True"
| "starts_with [] (p # ps) = False"
| "starts_with (c # cs) (p # ps) = (c = p \<and> starts_with cs ps)"

fun includes_str :: "string \<Rightarrow> string \<Rightarrow> bool" where
  "includes_str [] pat = (pat = [])"
| "includes_str (c # cs) pat = (starts_with (c # cs) pat \<or> includes_str cs pat)"

definition shouldExpandMaterial :: "string \<Rightarrow> nat \<Rightarrow> rat \<Rightarrow> bool" where
  "shouldExpandMaterial nm depth maxDepth =
     (if maxDepth \<le> of_nat depth then False
      else (let n = toLowerCase nm in
            if includes_str n ''booster'' then True
            else if includes_str n ''fuel block'' then True
            else False))"

text \<open>
  \<^verbatim>\<open>totals\<close> is a \<^verbatim>\<open>Map\<close>, which keeps insertion order: an association list updated in
  place. \<^verbatim>\<open>visited\<close> holds the guard keys \<^verbatim>\<open>`${tid}@${depth}`\<close> as pairs.
\<close>

record walk_state =
  totals :: "(tid \<times> total_val) list"
  visited :: "(int \<times> nat) set"

definition addQty :: "total_val option \<Rightarrow> total_val \<Rightarrow> total_val" where
  "addQty existing add =
     (case existing of
        None \<Rightarrow> \<lparr>name = name add, qty = qty add\<rparr>
      | Some e \<Rightarrow> \<lparr>name = (if name e \<noteq> [] then name e else name add), qty = qty e + qty add\<rparr>)"

definition record_total :: "tid \<Rightarrow> total_val \<Rightarrow> walk_state \<Rightarrow> walk_state" where
  "record_total k add st =
     st\<lparr>totals := AList.update k (addQty (map_of (totals st) k) add) (totals st)\<rparr>"

definition product_label :: "blueprint \<Rightarrow> tid \<Rightarrow> string" where
  "product_label bp t = (if productTypeName bp \<noteq> [] then productTypeName bp else type_label t)"

text \<open>
  The recursive \<^verbatim>\<open>walk\<close> and its loop over the material lines. The depth grows by one on
  each recursive call and \<^verbatim>\<open>shouldExpandMaterial\<close> refuses at \<^verbatim>\<open>depth >= maxDepth\<close>, which
  bounds the recursion.
\<close>

function walk :: "repo \<Rightarrow> rat \<Rightarrow> tid \<Rightarrow> rat \<Rightarrow> nat \<Rightarrow> walk_state \<Rightarrow> walk_state"
  and walk_mats :: "repo \<Rightarrow> rat \<Rightarrow> material list \<Rightarrow> rat \<Rightarrow> nat \<Rightarrow> walk_state \<Rightarrow> walk_state" where
  "walk R maxDepth t runCount depth st =
     (case t of
        None \<Rightarrow> st
      | Some i \<Rightarrow>
          if (i, depth) \<in> visited st
          then record_total t \<lparr>name = type_label t, qty = 0\<rparr> st
          else (let st1 = st\<lparr>visited := insert (i, depth) (visited st)\<rparr> in
                case R t of
                  None \<Rightarrow> record_total t \<lparr>name = type_label t, qty = 0\<rparr> st1
                | Some bp \<Rightarrow>
                    (case pickBlueprintActivity bp of
                       None \<Rightarrow> record_total t \<lparr>name = product_label bp t, qty = 0\<rparr> st1
                     | Some act \<Rightarrow>
                         if act = []
                         then record_total t \<lparr>name = product_label bp t, qty = 0\<rparr> st1
                         else (let mats = activity_lines bp act in
                               if mats = []
                               then record_total t \<lparr>name = product_label bp t, qty = 0\<rparr> st1
                               else walk_mats R maxDepth mats runCount depth st1))))"
| "walk_mats R maxDepth [] runCount depth st = st"
| "walk_mats R maxDepth (m # ms) runCount depth st =
     (let mid = typeid m;
          mname = (if mat_name m \<noteq> [] then mat_name m else type_label mid);
          perRun = toNumber (quantity m) 0;
          needed = perRun * runCount
      in walk_mats R maxDepth ms runCount depth
           (if shouldExpandMaterial mname depth maxDepth
            then (let childBp = R mid;
                      childAct = (case childBp of None \<Rightarrow> None | Some b \<Rightarrow> pickBlueprintActivity b);
                      childOut = (case childBp of None \<Rightarrow> 1 | Some b \<Rightarrow> toNumber (productQuantity b) 1)
                  in if childBp \<noteq> None \<and> truthy_act childAct
                     then walk R maxDepth mid (of_int \<lceil>needed / max childOut 1\<rceil>) (depth + 1) st
                     else record_total mid \<lparr>name = mname, qty = needed\<rparr> st)
            else record_total mid \<lparr>name = mname, qty = needed\<rparr> st))"
  by pat_completeness auto

termination
  apply (relation "measures [\<lambda>x. case x of
             Inl (R, maxDepth, t, runCount, depth, st) \<Rightarrow> 2 * (nat \<lceil>maxDepth\<rceil> - depth) + 1
           | Inr (R, maxDepth, ms, runCount, depth, st) \<Rightarrow> 2 * (nat \<lceil>maxDepth\<rceil> - depth),
           \<lambda>x. case x of
             Inl (R, maxDepth, t, runCount, depth, st) \<Rightarrow> 0
           | Inr (R, maxDepth, ms, runCount, depth, st) \<Rightarrow> length ms]")
     apply (auto simp: shouldExpandMaterial_def split: if_splits)
   apply linarith+
  done

declare walk.simps [simp del]

text \<open>The result lists the entries of \<^verbatim>\<open>totals\<close> with \<^verbatim>\<open>qty > 0\<close>, in insertion order.\<close>

definition expandToRawTotals :: "repo \<Rightarrow> tid \<Rightarrow> rat \<Rightarrow> rat \<Rightarrow> raw_total list" where
  "expandToRawTotals R typeId0 runs maxDepth =
     (let st = walk R maxDepth typeId0 runs 0 \<lparr>totals = [], visited = {}\<rparr>
      in map (\<lambda>(k, v). \<lparr>name = name v, qty = qty v, typeId = k\<rparr>)
             (filter (\<lambda>(k, v). qty v > 0) (totals st)))"

text \<open>
  The lines of the activity that \<^verbatim>\<open>walk\<close> (and \<^verbatim>\<open>runCalculator\<close>, for its direct materials)
  reads for a type: none when the blueprint cannot be fetched or has no usable activity.
\<close>

definition direct_lines :: "repo \<Rightarrow> tid \<Rightarrow> material list" where
  "direct_lines R t =
     (case R t of
        None \<Rightarrow> []
      | Some bp \<Rightarrow>
          (case pickBlueprintActivity bp of
             None \<Rightarrow> []
           | Some act \<Rightarrow> if act = [] then [] else activity_lines bp act))"

text \<open>One pass of the loop for a line that is not expanded: the \<^verbatim>\<open>// leaf\<close> branch.\<close>

definition leaf_line :: "rat \<Rightarrow> material \<Rightarrow> walk_state \<Rightarrow> walk_state" where
  "leaf_line runCount m =
     record_total (typeid m)
       \<lparr>name = (if mat_name m \<noteq> [] then mat_name m else type_label (typeid m)),
        qty = toNumber (quantity m) 0 * runCount\<rparr>"

section \<open>Fixtures\<close>

text \<open>Concrete documents, queues and series on which the results below are evaluated.\<close>

definition demo_parse :: "string \<Rightarrow> nat option" where
  "demo_parse t = (if t = ''{}'' then Some 0 else None)"

definition demo_net :: "string \<Rightarrow> response" where
  "demo_net u = (if u = ''bad'' then Response False 500 [] else Response True 200 ''{}'')"

definition demo_gateway :: "nat gateway" where
  "demo_gateway = \<lparr>clock = 1000000, adamLastCallMs = 0,
                    net_st = \<lparr>memCache = Map.empty, requests = []\<rparr>\<rparr>"

definition good_call :: call where
  "good_call = \<lparr>call_url = ''good'', call_ttlMs = 600000, call_latency = 50, timer_slack = 0\<rparr>"

definition bad_call :: call where
  "bad_call = \<lparr>call_url = ''bad'', call_ttlMs = 600000, call_latency = 10, timer_slack = 0\<rparr>"

definition demo_index :: "string \<rightharpoonup> int" where
  "demo_index = [''Tritanium'' \<mapsto> 34, ''Pyerite'' \<mapsto> 35]"

definition demo_resolver :: resolver_state where
  "demo_resolver = \<lparr>storage = Obj \<lparr>savedAt = 5, map_obj = Some demo_index\<rparr>,
                     storage_writable = True,
                     fetch_st = \<lparr>memCache = Map.empty, requests = []\<rparr>\<rparr>"

definition mexallon_parse :: "string \<Rightarrow> typeid_row option list option" where
  "mexallon_parse t = (if t = ''rows'' then Some [Some \<lparr>typeName = ''Mexallon'', typeID = 36\<rparr>] else None)"





definition price_row :: "nat \<Rightarrow> rat \<Rightarrow> nat history_row" where
  "price_row d p = \<lparr>type_id = Numeric 25268, price_date = d, sell_price_avg = Numeric p\<rparr>"

definition falling_series :: "nat history_row list" where
  "falling_series = [price_row 3 70, price_row 0 100, price_row 1 90, price_row 2 80,
                     price_row 4 60, price_row 5 50, price_row 6 40, price_row 7 30]"

definition zero_first_series :: "nat history_row list" where
  "zero_first_series =
     [\<lparr>type_id = Numeric 25268, price_date = 0, sell_price_avg = Null\<rparr>, price_row 1 90]"

definition unknown_first_series :: "nat history_row list" where
  "unknown_first_series =
     [\<lparr>type_id = Numeric 25268, price_date = 0, sell_price_avg = Undefined\<rparr>, price_row 1 90]"

definition mk_bp :: "string \<Rightarrow> rat \<Rightarrow> material list \<Rightarrow> blueprint" where
  "mk_bp nm out ms =
     \<lparr>activityMaterials = Some [(''1'', Some ms)], productQuantity = Numeric out, productTypeName = nm\<rparr>"

definition line :: "int \<Rightarrow> string \<Rightarrow> rat \<Rightarrow> material" where
  "line i nm q = \<lparr>typeid = Some i, mat_name = nm, quantity = Numeric q\<rparr>"

text \<open>A pill made of gas (twice on the list) and of water with quantity 0.\<close>

definition pill_repo :: repo where
  "pill_repo t =
     (if t = Some 1
      then Some (mk_bp ''Pill'' 1 [line 2 ''Gas'' 5, line 3 ''Water'' 0, line 2 ''Gas'' 7])
      else None)"



text \<open>A pill of ten pure boosters, whose blueprint has an activity with no lines.\<close>

definition empty_mats_repo :: repo where
  "empty_mats_repo t =
     (if t = Some 1 then Some (mk_bp ''Pill'' 1 [line 2 ''Pure Booster'' 10])
      else if t = Some 2 then Some (mk_bp ''Pure Booster'' 1 [])
      else None)"

text \<open>The same pill when the pure booster has no blueprint at all.\<close>

definition no_child_repo :: repo where
  "no_child_repo t =
     (if t = Some 1 then Some (mk_bp ''Pill'' 1 [line 2 ''Pure Booster'' 10]) else None)"

section \<open>Results about the cache\<close>

text \<open>
  C6. A failing fetch (rejected request, non-success status or unparsable body) leaves the
  in-memory cache exactly as it was, so an earlier entry for the URL survives; the cache
  changes only on success, and then only by storing the fresh entry under the URL's key.
\<close>

theorem fetchJson_failure_keeps_cache:
  "(fetchJson parse net now url ttlMs st = (Inl e, st') \<longrightarrow> memCache st' = memCache st) \<and>
   (fetchJson parse net now url ttlMs st = (r, st') \<and> memCache st' \<noteq> memCache st \<longrightarrow>
      (\<exists>d. r = Inr d \<and> memCache st' = (memCache st)(''json:'' @ url \<mapsto> \<lparr>time = now, data = d\<rparr>)))"
  by (auto simp: fetchJson_def Let_def split: option.splits response.splits if_splits)

theorem fetchJson_failure_keeps_cache_witness:
  "fetchJson (\<lambda>t. if t = ''7'' then Some (7::nat) else None)
             (\<lambda>u. Response False 503 ''busy'') 100 ''u'' 10
             \<lparr>memCache = [''json:u'' \<mapsto> \<lparr>time = 0, data = 5\<rparr>], requests = []\<rparr>
     = (Inl (HttpError 503 ''u''),
        \<lparr>memCache = [''json:u'' \<mapsto> \<lparr>time = 0, data = 5\<rparr>], requests = [''u'']\<rparr>) \<and>
   memCache \<lparr>memCache = [''json:u'' \<mapsto> \<lparr>time = 0, data = 5::nat\<rparr>], requests = [''u'']\<rparr>
     = memCache \<lparr>memCache = [''json:u'' \<mapsto> \<lparr>time = 0, data = 5\<rparr>], requests = []\<rparr>"
proof -
  let ?p = "\<lambda>t. if t = ''7'' then Some (7::nat) else None"
  let ?n = "\<lambda>u::string. Response False 503 ''busy''"
  let ?st = "\<lparr>memCache = [''json:u'' \<mapsto> \<lparr>time = 0, data = 5::nat\<rparr>], requests = []\<rparr>"
  let ?st' = "\<lparr>memCache = [''json:u'' \<mapsto> \<lparr>time = 0, data = 5::nat\<rparr>], requests = [''u'']\<rparr>"
  have run: "fetchJson ?p ?n 100 ''u'' 10 ?st = (Inl (HttpError 503 ''u''), ?st')"
    by (simp add: fetchJson_def cache_hit_def)
  from fetchJson_failure_keeps_cache [of ?p ?n 100 "''u''" 10 ?st "HttpError 503 ''u''" ?st'] run
  show ?thesis by blast
qed

section \<open>Results about the gateway\<close>

lemma adam_callback_times:
  assumes "adam_callback parse net c g = (out, g')"
  shows "adamLastCallMs g + 5100 \<le> issued out" "clock g \<le> issued out"
    "issued out \<le> completed out" "clock g' = completed out" "started out = clock g"
  using assms by (auto simp: adam_callback_def Let_def split: prod.splits sum.splits if_splits)

lemma adam_callback_success:
  assumes "adam_callback parse net c g = (out, g')" "\<not> isl (result out)"
  shows "adamLastCallMs g' = completed out"
  using assms by (auto simp: adam_callback_def Let_def split: prod.splits sum.splits)

lemma adam_callback_failure:
  assumes "adam_callback parse net c g = (out, g')" "isl (result out)"
  shows "adamLastCallMs g' = adamLastCallMs g"
  using assms by (auto simp: adam_callback_def Let_def split: prod.splits sum.splits)

text \<open>
  As long as every call succeeds the queue keeps the interval: the last of \<open>N\<close> calls
  completes no earlier than \<open>(N - 1) * 5100\<close> ms after the first one starts, whatever the
  latencies are.
\<close>

lemma adam_queue_success_spacing:
  "adamFetchJson_queue parse net cs g = (outs, g') \<Longrightarrow> cs \<noteq> [] \<Longrightarrow>
   \<forall>out \<in> set outs. \<not> isl (result out) \<Longrightarrow>
   max (clock g) (adamLastCallMs g + 5100) + (int (length cs) - 1) * 5100 \<le> completed (last outs)
   \<and> started (hd outs) = clock g \<and> length outs = length cs"
proof (induction cs arbitrary: g outs g')
  case Nil
  then show ?case by simp
next
  case (Cons c cs)
  obtain out g1 where cb: "adam_callback parse net c g = (out, g1)"
    by (cases "adam_callback parse net c g")
  obtain outs1 g2 where q: "adamFetchJson_queue parse net cs g1 = (outs1, g2)"
    by (cases "adamFetchJson_queue parse net cs g1")
  from Cons.prems(1) cb q have outs: "outs = out # outs1" by simp
  note t = adam_callback_times [OF cb]
  show ?case
  proof (cases "cs = []")
    case True
    with q have "outs1 = []" by simp
    with outs t True show ?thesis by simp
  next
    case False
    from Cons.prems(3) outs have ok: "\<not> isl (result out)"
      and oks: "\<forall>x \<in> set outs1. \<not> isl (result x)"
      by simp_all
    from Cons.IH [OF q False oks]
    have ih: "max (clock g1) (adamLastCallMs g1 + 5100) + (int (length cs) - 1) * 5100
                \<le> completed (last outs1)" and len: "length outs1 = length cs"
      by simp_all
    from len False have ne: "outs1 \<noteq> []" by auto
    from adam_callback_success [OF cb ok] have "adamLastCallMs g1 = completed out" .
    with ih t ne outs len show ?thesis by (simp add: algebra_simps)
  qed
qed

text \<open>
  C4. The claim bounds the completion of \<open>N\<close> queued calls from below by
  \<open>(N - 1) * 5100\<close> ms after the first call starts, also when calls fail. The code does not
  do that: queue a call that fails and a second call behind it at clock 1000000. The failed
  call completes at 1000010 and leaves \<^verbatim>\<open>adamLastCallMs\<close> at 0, so the second call computes
  \<^verbatim>\<open>waitMs = 0\<close>, is issued at 1000010 and completes at 1000060: two calls complete 60 ms
  after the first one started, not 5100 ms or more.
\<close>

theorem adamFetchJson_queue_failed_call_not_spaced:
  "map (\<lambda>out. (started out, issued out, completed out, isl (result out)))
       (fst (adamFetchJson_queue demo_parse demo_net [bad_call, good_call] demo_gateway))
     = [(1000000, 1000000, 1000010, True), (1000010, 1000010, 1000060, False)]"
  by (simp add: adam_callback_def fetchJson_def cache_hit_def demo_gateway_def good_call_def
      bad_call_def demo_parse_def demo_net_def Let_def)

text \<open>
  C5. The claim says that \<^verbatim>\<open>adamLastCallMs\<close> is set to the completion time after a failed
  call as after a successful one. In the code the assignment is skipped when
  \<^verbatim>\<open>fetchJson\<close> throws: a call that starts at 1000000 with \<^verbatim>\<open>adamLastCallMs = 999000\<close>
  waits 4100 ms, fails and completes at 1004110, and \<^verbatim>\<open>adamLastCallMs\<close> is still 999000.
\<close>

theorem adam_callback_failure_keeps_adamLastCallMs:
  "adamLastCallMs (snd (adam_callback demo_parse demo_net bad_call
                          (demo_gateway\<lparr>adamLastCallMs := 999000\<rparr>))) = 999000 \<and>
   completed (fst (adam_callback demo_parse demo_net bad_call
                          (demo_gateway\<lparr>adamLastCallMs := 999000\<rparr>))) = 1004110 \<and>
   isl (result (fst (adam_callback demo_parse demo_net bad_call
                          (demo_gateway\<lparr>adamLastCallMs := 999000\<rparr>))))"
  by (simp add: adam_callback_def fetchJson_def cache_hit_def demo_gateway_def bad_call_def
      demo_parse_def demo_net_def Let_def)

section \<open>Results about the name resolver\<close>

lemma dom_add_row: "dom m \<subseteq> dom (add_row row m)"
  by (auto simp: add_row_def split: option.splits)

lemma dom_fold_add_row: "dom m \<subseteq> dom (fold add_row rows m)"
proof (induction rows arbitrary: m)
  case Nil
  show ?case by simp
next
  case (Cons row rows)
  have "dom m \<subseteq> dom (add_row row m)" by (rule dom_add_row)
  also have "\<dots> \<subseteq> dom (fold add_row rows (add_row row m))" by (rule Cons.IH)
  finally show ?case by simp
qed

lemma dom_resolve_parts:
  "resolve_parts enc parse net now parts m ns = (Inr m1, ns1) \<Longrightarrow> dom m \<subseteq> dom m1"
proof (induction parts arbitrary: m ns)
  case Nil
  then show ?case by simp
next
  case (Cons names parts)
  let ?url = "''https://www.fuzzwork.co.uk/api/typeid2.php?typename='' @ join ''|'' (map enc names)"
  obtain r ns2 where f: "fetchJson parse net now ?url (24 * 3600 * 1000) ns = (r, ns2)"
    by (cases "fetchJson parse net now ?url (24 * 3600 * 1000) ns")
  show ?case
  proof (cases r)
    case (Inl e)
    with Cons.prems f show ?thesis by (simp add: Let_def)
  next
    case (Inr rows)
    with Cons.prems f
    have "resolve_parts enc parse net now parts (fold add_row rows m) ns2 = (Inr m1, ns1)"
      by (simp add: Let_def)
    then have "dom (fold add_row rows m) \<subseteq> dom m1" by (rule Cons.IH)
    with dom_fold_add_row [of m rows] show ?thesis by blast
  qed
qed

text \<open>
  C10. \<^verbatim>\<open>resolveTypeIDsByName\<close> returns the whole persisted index, not the requested names
  only. When every requested name is in the index (with a non-zero id) it returns exactly
  the persisted index and leaves the state as it was: nothing is fetched and nothing is
  saved. Whenever it returns a mapping, every name of the persisted index is in it,
  requested or not.
\<close>

theorem resolveTypeIDsByName_whole_index:
  "((\<forall>n \<in> set typeNames. truthy_id (persisted_index st n)) \<longrightarrow>
      resolveTypeIDsByName enc parse net now typeNames st = (Inr (persisted_index st), st)) \<and>
   (resolveTypeIDsByName enc parse net now typeNames st = (Inr m1, st1) \<longrightarrow>
      dom (persisted_index st) \<subseteq> dom m1)"
proof (intro conjI impI)
  assume "\<forall>n \<in> set typeNames. truthy_id (persisted_index st n)"
  then have "filter (\<lambda>n. \<not> truthy_id (persisted_index st n)) typeNames = []"
    by (simp add: filter_empty_conv)
  then show "resolveTypeIDsByName enc parse net now typeNames st = (Inr (persisted_index st), st)"
    by (simp add: resolveTypeIDsByName_def persisted_index_def Let_def)
next
  assume r: "resolveTypeIDsByName enc parse net now typeNames st = (Inr m1, st1)"
  let ?m = "persisted_index st"
  let ?missing = "filter (\<lambda>n. \<not> truthy_id (?m n)) typeNames"
  show "dom ?m \<subseteq> dom m1"
  proof (cases "?missing = []")
    case True
    with r have "m1 = ?m"
      by (auto simp: resolveTypeIDsByName_def persisted_index_def Let_def)
    then show ?thesis by simp
  next
    case False
    obtain res ns
      where p: "resolve_parts enc parse net now (chunk ?missing 20) ?m (fetch_st st) = (res, ns)"
      by (cases "resolve_parts enc parse net now (chunk ?missing 20) ?m (fetch_st st)")
    with r False have "res = Inr m1"
      by (auto simp: resolveTypeIDsByName_def persisted_index_def Let_def split: sum.splits)
    with p show ?thesis by (auto dest: dom_resolve_parts)
  qed
qed

lemma demo_persisted: "persisted_index demo_resolver = demo_index"
  by (simp add: persisted_index_def demo_resolver_def loadTypeIdCache_def)

lemma chunk_single: "chunk [x] 20 = [[x]]"
  by (simp add: chunk.simps [of "[x]"] chunk.simps [of "[]"])

lemma resolve_mexallon:
  "fst (resolveTypeIDsByName id mexallon_parse (\<lambda>u. Response True 200 ''rows'') 9 [''Mexallon'']
          demo_resolver) = Inr (demo_index(''Mexallon'' \<mapsto> 36))"
  by (simp add: resolveTypeIDsByName_def loadTypeIdCache_def
      truthy_id_def demo_index_def chunk_single fetchJson_def cache_hit_def demo_resolver_def
      mexallon_parse_def add_row_def saveTypeIdCache_def Let_def)

theorem resolveTypeIDsByName_whole_index_witness:
  "resolveTypeIDsByName id (\<lambda>t. None) (\<lambda>u. Rejected) 9 [''Tritanium''] demo_resolver
     = (Inr demo_index, demo_resolver) \<and>
   requests (fetch_st demo_resolver) = [] \<and>
   demo_index ''Pyerite'' = Some 35 \<and>
   fst (resolveTypeIDsByName id mexallon_parse (\<lambda>u. Response True 200 ''rows'') 9 [''Mexallon'']
          demo_resolver) = Inr (demo_index(''Mexallon'' \<mapsto> 36)) \<and>
   dom demo_index \<subseteq> dom (demo_index(''Mexallon'' \<mapsto> 36))"
proof -
  have h: "\<forall>n \<in> set [''Tritanium'']. truthy_id (persisted_index demo_resolver n)"
    by (simp add: demo_persisted demo_index_def truthy_id_def)
  from resolveTypeIDsByName_whole_index
         [of "[''Tritanium'']" demo_resolver id "\<lambda>t. None" "\<lambda>u. Rejected" 9] h
  have a: "resolveTypeIDsByName id (\<lambda>t. None) (\<lambda>u. Rejected) 9 [''Tritanium''] demo_resolver
     = (Inr (persisted_index demo_resolver), demo_resolver)" by blast
  obtain st1 where
    "resolveTypeIDsByName id mexallon_parse (\<lambda>u. Response True 200 ''rows'') 9 [''Mexallon'']
       demo_resolver = (Inr (demo_index(''Mexallon'' \<mapsto> 36)), st1)"
    using resolve_mexallon
    by (cases "resolveTypeIDsByName id mexallon_parse (\<lambda>u. Response True 200 ''rows'') 9
                 [''Mexallon''] demo_resolver") auto
  with resolveTypeIDsByName_whole_index
         [of "[''Mexallon'']" demo_resolver id mexallon_parse "\<lambda>u. Response True 200 ''rows''" 9
             "demo_index(''Mexallon'' \<mapsto> 36)" st1]
  have b: "dom (persisted_index demo_resolver) \<subseteq> dom (demo_index(''Mexallon'' \<mapsto> 36))" by blast
  have c: "requests (fetch_st demo_resolver) = []" "demo_index ''Pyerite'' = Some 35"
    by (simp_all add: demo_resolver_def demo_index_def)
  from a b c resolve_mexallon show ?thesis by (simp only: demo_persisted) 
qed

section \<open>Results about prices and the material cost\<close>









section \<open>Results about the cost summary\<close>

text \<open>
  C9. The summary has \<open>allInCost = materialCost + acquisitionCost\<close>,
  \<open>perRun = allInCost / runs\<close> with \<open>runs \<ge> 1\<close>, \<open>perUnit = allInCost / max (runs * outputPerRun) 1\<close>,
  which is \<open>allInCost / (runs * outputPerRun)\<close> once there is at least one output unit, and,
  when the output's unit price is known, \<open>revenue = price * runs * outputPerRun\<close> and
  \<open>profit = revenue - allInCost\<close> (both unknown otherwise). No denominator is zero.
\<close>

theorem runCalculator_summary_figures:
  "let s = runCalculator_summary bpcCostField totalRunsField prodQty materialCost outUnitPrice;
       runs = totalRuns_s s; units = totalOutputUnits s; allIn = totalCostAllIn s
   in allIn = materialCost + toNumber bpcCostField 0 \<and>
      1 \<le> runs \<and> units = runs * toNumber prodQty 1 \<and>
      costPerRun s = allIn / runs \<and>
      costPerUnit s = allIn / max units 1 \<and> 1 \<le> max units 1 \<and>
      (1 \<le> units \<longrightarrow> costPerUnit s = allIn / units) \<and>
      estRevenue s = map_option (\<lambda>p. p * units) outUnitPrice \<and>
      estProfit s = map_option (\<lambda>p. p * units - allIn) outUnitPrice"
  by (cases outUnitPrice) (simp_all add: runCalculator_summary_def Let_def max_def)

theorem runCalculator_summary_figures_witness:
  "(1::rat) \<le> 4 * 10 \<and>
   costPerUnit (runCalculator_summary (Numeric 100) (Numeric (9/2)) (Numeric 10) 900 (Some 30))
     = 1000 / 40 \<and>
   costPerRun (runCalculator_summary (Numeric 100) (Numeric (9/2)) (Numeric 10) 900 (Some 30))
     = 250 \<and>
   estProfit (runCalculator_summary (Numeric 100) (Numeric (9/2)) (Numeric 10) 900 (Some 30))
     = Some 200"
proof -
  let ?s = "runCalculator_summary (Numeric 100) (Numeric (9/2)) (Numeric 10) 900 (Some 30)"
  have fl: "\<lfloor>9 / 2 :: rat\<rfloor> = 4" by (simp add: floor_eq_iff)
  have runs: "totalRuns_s ?s = 4" and units: "totalOutputUnits ?s = 40"
    and allIn: "totalCostAllIn ?s = 1000"
    by (simp_all add: runCalculator_summary_def Let_def toNumber_def fl)
  from runCalculator_summary_figures [of "Numeric 100" "Numeric (9/2)" "Numeric 10" 900 "Some 30"]
  show ?thesis by (simp add: Let_def runs units allIn)
qed

section \<open>Results about the price statistics\<close>

lemma mset_valid_prices:
  "mset (valid_prices rows) =
     (\<Sum>r\<in>#mset rows. mset (case toNumber_null (sell_price_avg r) of
                                  None \<Rightarrow> [] | Some p \<Rightarrow> if p > 0 then [p] else []))"
  by (induction rows) (simp_all add: valid_prices_def)

lemma valid_prices_sort_key:
  "mset (valid_prices (sort_key f rows)) = mset (valid_prices rows)"
  by (simp add: mset_valid_prices)

lemma set_valid_prices:
  "set (valid_prices rows) = {p. 0 < p \<and> (\<exists>r \<in> set rows. Number (sell_price_avg r) = Some p)}"
  by (auto simp: valid_prices_def toNumber_null_def split: option.splits if_splits)

lemma hd_sort_key_least:
  assumes "sort_key f xs = y # ys"
  shows "y \<in> set xs \<and> (\<forall>x \<in> set xs. f y \<le> f x)"
proof -
  have s: "sorted (map f (y # ys))" using assms sorted_sort_key [of f xs] by simp
  have e: "set (y # ys) = set xs" using assms set_sort [of f xs] by simp
  from s have "\<forall>x \<in> set (y # ys). f y \<le> f x" by auto
  with e show ?thesis by auto
qed

lemma last_sort_key_greatest:
  assumes "sort_key f xs = y # ys"
  shows "last (y # ys) \<in> set xs \<and> (\<forall>x \<in> set xs. f x \<le> f (last (y # ys)))"
proof -
  have s: "sorted (map f (y # ys))" using assms sorted_sort_key [of f xs] by simp
  have e: "set (y # ys) = set xs" using assms set_sort [of f xs] by simp
  have "\<forall>x \<in> set zs. f x \<le> f (last zs)" if "sorted (map f zs)" for zs
    using that by (induction zs) auto
  from this [OF s] e show ?thesis by (metis last_in_set list.discI)
qed

lemma falling_stats:
  "stats_of_rows falling_series =
     Some \<lparr>first_p = Some 100, last_p = Some 30, min_p = 30, max_p = 100, avg = 65, pct = Some (- 70)\<rparr>"
  by (simp add: stats_of_rows_def falling_series_def price_row_def valid_prices_def
      toNumber_null_def pct_change_def Let_def)

lemma falling_groups: "group_by_type falling_series = [(Some 25268, falling_series)]"
  by (simp add: group_by_type_def falling_series_def price_row_def)

lemma fold_groups:
  "distinct ks \<Longrightarrow>
   fold (\<lambda>(k, rs) st. case f rs of None \<Rightarrow> st | Some s \<Rightarrow> st(k \<mapsto> s)) (map (\<lambda>k. (k, g k)) ks) m k'
     = (if k' \<in> set ks then (case f (g k') of None \<Rightarrow> m k' | Some s \<Rightarrow> Some s) else m k')"
  by (induction ks arbitrary: m) (auto split: option.splits)

lemma loadBoosterStats7d_per_type:
  "loadBoosterStats7d rows Map.empty k =
     (if k \<in> (\<lambda>r. Number (type_id r)) ` set rows
      then stats_of_rows (filter (\<lambda>r. Number (type_id r) = k) rows) else None)"
proof -
  let ?ks = "rev (remdups (rev (map (\<lambda>r. Number (type_id r)) rows)))"
  have d: "distinct ?ks" by simp
  have s: "set ?ks = (\<lambda>r. Number (type_id r)) ` set rows" by simp
  show ?thesis
    unfolding loadBoosterStats7d_def group_by_type_def
    by (simp only: fold_groups [OF d] s) (simp split: option.splits)
qed

lemma stats_produced:
  "(\<exists>s. stats_of_rows rows = Some s) = (valid_prices rows \<noteq> [])"
proof -
  have ms: "mset (valid_prices (sort_key price_date rows)) = mset (valid_prices rows)"
    by (rule valid_prices_sort_key)
  have e: "(valid_prices (sort_key price_date rows) = []) = (valid_prices rows = [])"
    using ms by (metis mset_zero_iff)
  show ?thesis
  proof (cases "sort_key price_date rows")
    case Nil
    then have "rows = []" by (metis length_sort list.size(3) length_0_conv)
    with Nil show ?thesis by (simp add: stats_of_rows_def valid_prices_def)
  next
    case (Cons y ys)
    with e show ?thesis by (simp add: stats_of_rows_def Let_def)
  qed
qed

lemma fold_groups_gas:
  "distinct ks \<Longrightarrow>
   fst (fold (\<lambda>(k, rs) (g, s). case f rs of
                 None \<Rightarrow> (g, s)
               | Some v \<Rightarrow> ((case pct v of None \<Rightarrow> g | Some p \<Rightarrow> g(k \<mapsto> p)), s(k \<mapsto> v)))
             (map (\<lambda>k. (k, h k)) ks) (g0, s0)) k'
     = (if k' \<in> set ks
        then (case f (h k') of
                None \<Rightarrow> g0 k'
              | Some v \<Rightarrow> (case pct v of None \<Rightarrow> g0 k' | Some p \<Rightarrow> Some p))
        else g0 k') \<and>
   snd (fold (\<lambda>(k, rs) (g, s). case f rs of
                 None \<Rightarrow> (g, s)
               | Some v \<Rightarrow> ((case pct v of None \<Rightarrow> g | Some p \<Rightarrow> g(k \<mapsto> p)), s(k \<mapsto> v)))
             (map (\<lambda>k. (k, h k)) ks) (g0, s0)) k'
     = (if k' \<in> set ks then (case f (h k') of None \<Rightarrow> s0 k' | Some v \<Rightarrow> Some v) else s0 k')"
  by (induction ks arbitrary: g0 s0) (auto split: option.splits)

lemma loadBoosterStats7d_general:
  "loadBoosterStats7d rows m0 k =
     (if k \<in> (\<lambda>r. Number (type_id r)) ` set rows
      then (case stats_of_rows (filter (\<lambda>r. Number (type_id r) = k) rows) of
              None \<Rightarrow> m0 k | Some v \<Rightarrow> Some v)
      else m0 k)"
proof -
  let ?ks = "rev (remdups (rev (map (\<lambda>r. Number (type_id r)) rows)))"
  have d: "distinct ?ks" by simp
  have s: "set ?ks = (\<lambda>r. Number (type_id r)) ` set rows" by simp
  show ?thesis
    unfolding loadBoosterStats7d_def group_by_type_def
    by (simp only: fold_groups [OF d] s)
qed

lemma loadGasTrends7d_general:
  "fst (loadGasTrends7d rows (g0, m0)) k =
     (if k \<in> (\<lambda>r. Number (type_id r)) ` set rows
      then (case stats_of_rows (filter (\<lambda>r. Number (type_id r) = k) rows) of
              None \<Rightarrow> g0 k
            | Some v \<Rightarrow> (case pct v of None \<Rightarrow> g0 k | Some p \<Rightarrow> Some p))
      else g0 k)"
  "snd (loadGasTrends7d rows (g0, m0)) k =
     (if k \<in> (\<lambda>r. Number (type_id r)) ` set rows
      then (case stats_of_rows (filter (\<lambda>r. Number (type_id r) = k) rows) of
              None \<Rightarrow> m0 k | Some v \<Rightarrow> Some v)
      else m0 k)"
proof -
  let ?ks = "rev (remdups (rev (map (\<lambda>r. Number (type_id r)) rows)))"
  have d: "distinct ?ks" by simp
  have s: "set ?ks = (\<lambda>r. Number (type_id r)) ` set rows" by simp
  note fg = fold_groups_gas [OF d, of stats_of_rows "\<lambda>k. filter (\<lambda>r. Number (type_id r) = k) rows" g0 m0 k]
  show "fst (loadGasTrends7d rows (g0, m0)) k =
     (if k \<in> (\<lambda>r. Number (type_id r)) ` set rows
      then (case stats_of_rows (filter (\<lambda>r. Number (type_id r) = k) rows) of
              None \<Rightarrow> g0 k
            | Some v \<Rightarrow> (case pct v of None \<Rightarrow> g0 k | Some p \<Rightarrow> Some p))
      else g0 k)"
    unfolding loadGasTrends7d_def group_by_type_def
    using fg by (simp only: s)
  show "snd (loadGasTrends7d rows (g0, m0)) k =
     (if k \<in> (\<lambda>r. Number (type_id r)) ` set rows
      then (case stats_of_rows (filter (\<lambda>r. Number (type_id r) = k) rows) of
              None \<Rightarrow> m0 k | Some v \<Rightarrow> Some v)
      else m0 k)"
    unfolding loadGasTrends7d_def group_by_type_def
    using fg by (simp only: s)
qed

lemma unknown_first_stats:
  "stats_of_rows unknown_first_series =
     Some \<lparr>first_p = None, last_p = Some 90, min_p = 90, max_p = 90, avg = 90, pct = None\<rparr>"
  by (simp add: stats_of_rows_def unknown_first_series_def price_row_def valid_prices_def
      toNumber_null_def pct_change_def Let_def)

lemma unknown_first_groups:
  "filter (\<lambda>r. Number (type_id r) = Some 25268) unknown_first_series = unknown_first_series"
  "Some 25268 \<in> (\<lambda>r. Number (type_id r)) ` set unknown_first_series"
  by (simp_all add: unknown_first_series_def price_row_def)

text \<open>
  C8. Statistics are produced for the rows of one type exactly when at least one of them
  has a valid price (numeric and positive). The analyzer then sorts by date ascending, takes
  \<open>first\<close> and \<open>last\<close> from the rows of the earliest and the latest date, computes \<open>min\<close>,
  \<open>max\<close> and the average over the valid price points only, and
  \<open>percentChange = (last - first) / first * 100\<close>, which is left undefined when \<open>first\<close> is
  zero or unknown. \<^verbatim>\<open>loadBoosterStats7d\<close> and \<^verbatim>\<open>loadGasTrends7d\<close> store these statistics under
  each type that has rows and leave every other entry alone; \<^verbatim>\<open>gasTrends7d\<close> gets the
  change only when it is defined, so that from an empty table a type with an undefined change
  has no entry. For the series 100, 90, 80, 70, 60, 50, 40, 30 the change is exactly \<open>-70\<close>,
  in the stored statistics and in the trend table.
\<close>

theorem stats_of_rows_figures:
  "(stats_of_rows rows = Some s \<longrightarrow>
     sorted (map price_date (sort_key price_date rows)) \<and>
     (\<exists>r0 \<in> set rows. (\<forall>r \<in> set rows. price_date r0 \<le> price_date r) \<and>
                       first_p s = toNumber_null (sell_price_avg r0)) \<and>
     (\<exists>r1 \<in> set rows. (\<forall>r \<in> set rows. price_date r \<le> price_date r1) \<and>
                       last_p s = toNumber_null (sell_price_avg r1)) \<and>
     valid_prices rows \<noteq> [] \<and>
     set (valid_prices rows) = {p. 0 < p \<and> (\<exists>r \<in> set rows. Number (sell_price_avg r) = Some p)} \<and>
     min_p s \<in> set (valid_prices rows) \<and> (\<forall>p \<in> set (valid_prices rows). min_p s \<le> p) \<and>
     max_p s \<in> set (valid_prices rows) \<and> (\<forall>p \<in> set (valid_prices rows). p \<le> max_p s) \<and>
     avg s = sum_list (valid_prices rows) / of_nat (length (valid_prices rows)) \<and>
     pct s = (case first_p s of
                None \<Rightarrow> None
              | Some a \<Rightarrow> (case last_p s of
                            None \<Rightarrow> None
                          | Some b \<Rightarrow> if a > 0 then Some ((b - a) / a * 100) else None)) \<and>
     (first_p s = None \<or> first_p s = Some 0 \<longrightarrow> pct s = None)) \<and>
   (\<exists>s'. stats_of_rows rows = Some s') = (valid_prices rows \<noteq> []) \<and>
   loadBoosterStats7d history m0 k =
     (if k \<in> (\<lambda>r. Number (type_id r)) ` set history
      then (case stats_of_rows (filter (\<lambda>r. Number (type_id r) = k) history) of
              None \<Rightarrow> m0 k | Some v \<Rightarrow> Some v)
      else m0 k) \<and>
   snd (loadGasTrends7d history (g0, m0)) k =
     (if k \<in> (\<lambda>r. Number (type_id r)) ` set history
      then (case stats_of_rows (filter (\<lambda>r. Number (type_id r) = k) history) of
              None \<Rightarrow> m0 k | Some v \<Rightarrow> Some v)
      else m0 k) \<and>
   fst (loadGasTrends7d history (g0, m0)) k =
     (if k \<in> (\<lambda>r. Number (type_id r)) ` set history
      then (case stats_of_rows (filter (\<lambda>r. Number (type_id r) = k) history) of
              None \<Rightarrow> g0 k
            | Some v \<Rightarrow> (case pct v of None \<Rightarrow> g0 k | Some p \<Rightarrow> Some p))
      else g0 k) \<and>
   fst (loadGasTrends7d history (Map.empty, Map.empty)) k =
     (if k \<in> (\<lambda>r. Number (type_id r)) ` set history
      then (case stats_of_rows (filter (\<lambda>r. Number (type_id r) = k) history) of
              None \<Rightarrow> None | Some v \<Rightarrow> pct v)
      else None) \<and>
   loadBoosterStats7d history Map.empty k =
     (if k \<in> (\<lambda>r. Number (type_id r)) ` set history
      then stats_of_rows (filter (\<lambda>r. Number (type_id r) = k) history) else None) \<and>
   map_option pct (stats_of_rows falling_series) = Some (Some (- 70)) \<and>
   map_option pct (loadBoosterStats7d falling_series Map.empty (Some 25268)) = Some (Some (- 70)) \<and>
   fst (loadGasTrends7d falling_series (Map.empty, Map.empty)) (Some 25268) = Some (- 70)"
proof -
  have main: "stats_of_rows rows = Some s \<longrightarrow>
     sorted (map price_date (sort_key price_date rows)) \<and>
     (\<exists>r0 \<in> set rows. (\<forall>r \<in> set rows. price_date r0 \<le> price_date r) \<and>
                       first_p s = toNumber_null (sell_price_avg r0)) \<and>
     (\<exists>r1 \<in> set rows. (\<forall>r \<in> set rows. price_date r \<le> price_date r1) \<and>
                       last_p s = toNumber_null (sell_price_avg r1)) \<and>
     valid_prices rows \<noteq> [] \<and>
     set (valid_prices rows) = {p. 0 < p \<and> (\<exists>r \<in> set rows. Number (sell_price_avg r) = Some p)} \<and>
     min_p s \<in> set (valid_prices rows) \<and> (\<forall>p \<in> set (valid_prices rows). min_p s \<le> p) \<and>
     max_p s \<in> set (valid_prices rows) \<and> (\<forall>p \<in> set (valid_prices rows). p \<le> max_p s) \<and>
     avg s = sum_list (valid_prices rows) / of_nat (length (valid_prices rows)) \<and>
     pct s = (case first_p s of
                None \<Rightarrow> None
              | Some a \<Rightarrow> (case last_p s of
                            None \<Rightarrow> None
                          | Some b \<Rightarrow> if a > 0 then Some ((b - a) / a * 100) else None)) \<and>
     (first_p s = None \<or> first_p s = Some 0 \<longrightarrow> pct s = None)"
  proof
    assume a: "stats_of_rows rows = Some s"
  let ?rows = "sort_key price_date rows"
  let ?prices = "valid_prices ?rows"
  from a obtain y ys where sk: "?rows = y # ys"
    by (auto simp: stats_of_rows_def Let_def split: list.splits)
  from a sk have ne: "?prices \<noteq> []"
    and s: "s = \<lparr>first_p = toNumber_null (sell_price_avg y),
                 last_p = toNumber_null (sell_price_avg (last (y # ys))),
                 min_p = Min (set ?prices), max_p = Max (set ?prices),
                 avg = sum_list ?prices / of_nat (length ?prices),
                 pct = pct_change (toNumber_null (sell_price_avg y))
                                  (toNumber_null (sell_price_avg (last (y # ys))))\<rparr>"
    by (auto simp: stats_of_rows_def Let_def split: if_splits)
  have sel: "first_p s = toNumber_null (sell_price_avg y)"
    "last_p s = toNumber_null (sell_price_avg (last (y # ys)))"
    "pct s = pct_change (first_p s) (last_p s)"
    by (simp_all add: s)
  have ms: "mset ?prices = mset (valid_prices rows)" by (rule valid_prices_sort_key)
  then have st: "set ?prices = set (valid_prices rows)" by (rule mset_eq_setD)
  from ms have len: "length ?prices = length (valid_prices rows)" by (rule mset_eq_length)
  from ms have sm: "sum_list ?prices = sum_list (valid_prices rows)"
    by (metis sum_mset_sum_list)
  from ne st have ne': "valid_prices rows \<noteq> []" by auto
  have fin: "finite (set (valid_prices rows))" "set (valid_prices rows) \<noteq> {}" using ne' by auto
  have first: "\<exists>r0 \<in> set rows. (\<forall>r \<in> set rows. price_date r0 \<le> price_date r) \<and>
                       first_p s = toNumber_null (sell_price_avg r0)"
    using hd_sort_key_least [OF sk] s by auto
  have last: "\<exists>r1 \<in> set rows. (\<forall>r \<in> set rows. price_date r \<le> price_date r1) \<and>
                       last_p s = toNumber_null (sell_price_avg r1)"
    using last_sort_key_greatest [OF sk] s by auto
  have mn: "min_p s \<in> set (valid_prices rows) \<and> (\<forall>p \<in> set (valid_prices rows). min_p s \<le> p)"
    using fin by (simp add: s st)
  have mx: "max_p s \<in> set (valid_prices rows) \<and> (\<forall>p \<in> set (valid_prices rows). p \<le> max_p s)"
    using fin by (simp add: s st)
  have av: "avg s = sum_list (valid_prices rows) / of_nat (length (valid_prices rows))"
    by (simp add: s sm len)
  have pc: "pct s = (case first_p s of
                None \<Rightarrow> None
              | Some a \<Rightarrow> (case last_p s of
                            None \<Rightarrow> None
                          | Some b \<Rightarrow> if a > 0 then Some ((b - a) / a * 100) else None))"
    by (cases "first_p s"; cases "last_p s") (simp_all add: sel pct_change_def)
  have pn: "first_p s = None \<or> first_p s = Some 0 \<longrightarrow> pct s = None"
    by (auto simp: pc split: option.splits)
  show "sorted (map price_date (sort_key price_date rows)) \<and>
     (\<exists>r0 \<in> set rows. (\<forall>r \<in> set rows. price_date r0 \<le> price_date r) \<and>
                       first_p s = toNumber_null (sell_price_avg r0)) \<and>
     (\<exists>r1 \<in> set rows. (\<forall>r \<in> set rows. price_date r \<le> price_date r1) \<and>
                       last_p s = toNumber_null (sell_price_avg r1)) \<and>
     valid_prices rows \<noteq> [] \<and>
     set (valid_prices rows) = {p. 0 < p \<and> (\<exists>r \<in> set rows. Number (sell_price_avg r) = Some p)} \<and>
     min_p s \<in> set (valid_prices rows) \<and> (\<forall>p \<in> set (valid_prices rows). min_p s \<le> p) \<and>
     max_p s \<in> set (valid_prices rows) \<and> (\<forall>p \<in> set (valid_prices rows). p \<le> max_p s) \<and>
     avg s = sum_list (valid_prices rows) / of_nat (length (valid_prices rows)) \<and>
     pct s = (case first_p s of
                None \<Rightarrow> None
              | Some a \<Rightarrow> (case last_p s of
                            None \<Rightarrow> None
                          | Some b \<Rightarrow> if a > 0 then Some ((b - a) / a * 100) else None)) \<and>
     (first_p s = None \<or> first_p s = Some 0 \<longrightarrow> pct s = None)"
    using first last ne' set_valid_prices [of rows] mn mx av pc pn sorted_sort_key [of price_date rows]
    by blast
  qed
  have s1: "map_option pct (stats_of_rows falling_series) = Some (Some (- 70))"
    by (simp add: falling_stats)
  have s2: "map_option pct (loadBoosterStats7d falling_series Map.empty (Some 25268))
              = Some (Some (- 70))"
    by (simp add: loadBoosterStats7d_def falling_groups falling_stats)
  have s3: "fst (loadGasTrends7d falling_series (Map.empty, Map.empty)) (Some 25268) = Some (- 70)"
    by (simp add: loadGasTrends7d_def falling_groups falling_stats)
  have fresh: "fst (loadGasTrends7d history (Map.empty, Map.empty)) k =
     (if k \<in> (\<lambda>r. Number (type_id r)) ` set history
      then (case stats_of_rows (filter (\<lambda>r. Number (type_id r) = k) history) of
              None \<Rightarrow> None | Some v \<Rightarrow> pct v)
      else None)"
    by (simp add: loadGasTrends7d_general(1) split: option.splits)
  from main stats_produced [of rows] loadBoosterStats7d_general [of history m0 k]
    loadGasTrends7d_general(2) [of history g0 m0 k] loadGasTrends7d_general(1) [of history g0 m0 k]
    fresh loadBoosterStats7d_per_type [of history k] s1 s2 s3
  show ?thesis by (intro conjI)
qed

lemma zero_first_stats:
  "stats_of_rows zero_first_series =
     Some \<lparr>first_p = Some 0, last_p = Some 90, min_p = 90, max_p = 90, avg = 90, pct = None\<rparr>"
  by (simp add: stats_of_rows_def zero_first_series_def price_row_def valid_prices_def
      toNumber_null_def pct_change_def Let_def)

theorem stats_of_rows_figures_witness:
  "stats_of_rows falling_series =
     Some \<lparr>first_p = Some 100, last_p = Some 30, min_p = 30, max_p = 100, avg = 65, pct = Some (- 70)\<rparr> \<and>
   30 \<in> set (valid_prices falling_series) \<and> 100 \<in> set (valid_prices falling_series) \<and>
   sum_list (valid_prices falling_series) / of_nat (length (valid_prices falling_series)) = 65 \<and>
   stats_of_rows zero_first_series =
     Some \<lparr>first_p = Some 0, last_p = Some 90, min_p = 90, max_p = 90, avg = 90, pct = None\<rparr> \<and>
   90 \<in> set (valid_prices zero_first_series) \<and>
   stats_of_rows unknown_first_series =
     Some \<lparr>first_p = None, last_p = Some 90, min_p = 90, max_p = 90, avg = 90, pct = None\<rparr> \<and>
   valid_prices unknown_first_series \<noteq> [] \<and>
   fst (loadGasTrends7d unknown_first_series (Map.empty, Map.empty)) (Some 25268) = None \<and>
   snd (loadGasTrends7d unknown_first_series (Map.empty, Map.empty)) (Some 25268) =
     Some \<lparr>first_p = None, last_p = Some 90, min_p = 90, max_p = 90, avg = 90, pct = None\<rparr>"
proof -
  let ?f = "\<lparr>first_p = Some 100, last_p = Some 30, min_p = 30, max_p = 100, avg = 65, pct = Some (- 70)\<rparr>"
  let ?z = "\<lparr>first_p = Some 0, last_p = Some 90, min_p = 90, max_p = 90, avg = 90, pct = None\<rparr>"
  let ?u = "\<lparr>first_p = None, last_p = Some 90, min_p = 90, max_p = 90, avg = 90, pct = None\<rparr>"
  from stats_of_rows_figures [of falling_series ?f] falling_stats
  have "min_p ?f \<in> set (valid_prices falling_series) \<and> max_p ?f \<in> set (valid_prices falling_series) \<and>
     avg ?f = sum_list (valid_prices falling_series) / of_nat (length (valid_prices falling_series))"
    by blast
  then have a: "30 \<in> set (valid_prices falling_series) \<and> 100 \<in> set (valid_prices falling_series) \<and>
     sum_list (valid_prices falling_series) / of_nat (length (valid_prices falling_series)) = 65"
    by simp
  from stats_of_rows_figures [of zero_first_series ?z] zero_first_stats
  have "min_p ?z \<in> set (valid_prices zero_first_series)"
    by blast
  then have b: "90 \<in> set (valid_prices zero_first_series)"
    by simp
  note u = stats_of_rows_figures [of unknown_first_series ?u unknown_first_series Map.empty "Some 25268"
      Map.empty]
  from u unknown_first_stats have c: "valid_prices unknown_first_series \<noteq> []"
    by blast
  from u have "fst (loadGasTrends7d unknown_first_series (Map.empty, Map.empty)) (Some 25268) =
     (if Some 25268 \<in> (\<lambda>r. Number (type_id r)) ` set unknown_first_series
      then (case stats_of_rows (filter (\<lambda>r. Number (type_id r) = Some 25268) unknown_first_series) of
              None \<Rightarrow> None | Some v \<Rightarrow> pct v)
      else None)"
    by blast
  then have d: "fst (loadGasTrends7d unknown_first_series (Map.empty, Map.empty)) (Some 25268) = None"
    by (simp only: unknown_first_groups unknown_first_stats) simp
  from u have "snd (loadGasTrends7d unknown_first_series (Map.empty, Map.empty)) (Some 25268) =
     (if Some 25268 \<in> (\<lambda>r. Number (type_id r)) ` set unknown_first_series
      then (case stats_of_rows (filter (\<lambda>r. Number (type_id r) = Some 25268) unknown_first_series) of
              None \<Rightarrow> Map.empty (Some 25268) | Some v \<Rightarrow> Some v)
      else Map.empty (Some 25268))"
    by blast
  then have e: "snd (loadGasTrends7d unknown_first_series (Map.empty, Map.empty)) (Some 25268) = Some ?u"
    by (simp only: unknown_first_groups unknown_first_stats) simp
  from a b c d e falling_stats zero_first_stats unknown_first_stats show ?thesis by simp
qed

section \<open>Results about the expansion\<close>

lemma walk_mats_no_expansion:
  "maxDepth \<le> of_nat depth \<Longrightarrow>
   walk_mats R maxDepth ms runCount depth st = fold (leaf_line runCount) ms st"
  by (induction ms arbitrary: st)
     (simp_all add: shouldExpandMaterial_def leaf_line_def Let_def)

lemma qty_record_total:
  "(case map_of (totals (record_total k add st)) k' of None \<Rightarrow> 0 | Some v \<Rightarrow> qty v) =
   (case map_of (totals st) k' of None \<Rightarrow> 0 | Some v \<Rightarrow> qty v) + (if k' = k then qty add else 0)"
  by (simp add: record_total_def update_conv' addQty_def split: option.splits)


lemma distinct_record_total:
  "distinct (map fst (totals st)) \<Longrightarrow> distinct (map fst (totals (record_total k add st)))"
  by (simp add: record_total_def distinct_update)


lemma fold_leaf_qty:
  "(case map_of (totals (fold (leaf_line rc) ms st)) k of None \<Rightarrow> 0 | Some v \<Rightarrow> qty v) =
   (case map_of (totals st) k of None \<Rightarrow> 0 | Some v \<Rightarrow> qty v) +
   (\<Sum>m\<leftarrow>filter (\<lambda>m. typeid m = k) ms. toNumber (quantity m) 0 * rc)"
proof (induction ms arbitrary: st)
  case Nil
  show ?case by simp
next
  case (Cons m ms)
  show ?case
    by (simp add: Cons.IH) (simp add: leaf_line_def qty_record_total)
qed

lemma fold_leaf_distinct:
  "distinct (map fst (totals st)) \<Longrightarrow> distinct (map fst (totals (fold (leaf_line rc) ms st)))"
  by (induction ms arbitrary: st) (simp_all add: leaf_line_def distinct_record_total)

lemma walk_root_depth0:
  "totals (walk R 0 (Some i) runs 0 \<lparr>totals = [], visited = {}\<rparr>) =
     (if direct_lines R (Some i) = []
      then [(Some i, \<lparr>name = (case R (Some i) of None \<Rightarrow> type_label (Some i)
                                | Some bp \<Rightarrow> product_label bp (Some i)), qty = 0\<rparr>)]
      else totals (fold (leaf_line runs) (direct_lines R (Some i)) \<lparr>totals = [], visited = {(i, 0)}\<rparr>))"
  by (simp add: walk.simps(1) direct_lines_def Let_def record_total_def addQty_def
      walk_mats_no_expansion split: option.splits)

lemma expand_set:
  assumes "distinct (map fst (ts :: (tid \<times> total_val) list))"
  shows "e \<in> set (map (\<lambda>(k, v). \<lparr>name = name v, qty = qty v, typeId = k\<rparr>)
                     (filter (\<lambda>(k, v). qty v > 0) ts))
         \<longleftrightarrow> (\<exists>v. map_of ts (typeId e) = Some v \<and> 0 < qty v \<and> name e = name v \<and> qty e = qty v)"
  using assms by (cases e) (auto simp: image_iff)

lemma expand_distinct:
  assumes "distinct (map fst (ts :: (tid \<times> total_val) list))"
  shows "distinct (map typeId (map (\<lambda>(k, v). \<lparr>name = name v, qty = qty v, typeId = k\<rparr>)
                     (filter (\<lambda>(k, v). qty v > 0) ts)))"
proof -
  have "typeId \<circ> (\<lambda>(k, v :: total_val). \<lparr>name = name v, qty = qty v, typeId = k\<rparr>) = fst"
    by (auto simp: fun_eq_iff)
  with assms show ?thesis by (simp add: distinct_map_filter)
qed

text \<open>
  C1, as amended. With \<^verbatim>\<open>maxDepth = 0\<close>, for every recipe and every run count, the result has
  at most one entry per input Identifier of the chosen activity, each entry's quantity is
  the sum of \<open>quantityPerRun * runs\<close> over the lines with that Identifier and is positive, and
  every Identifier whose summed quantity is positive has its entry. An Identifier whose
  summed quantity is not positive has no entry.
\<close>

theorem expandToRawTotals_depth0:
  "let out = expandToRawTotals R (Some i) runs 0; lines = direct_lines R (Some i) in
     distinct (map typeId out) \<and>
     (\<forall>e \<in> set out. 0 < qty e \<and>
        qty e = (\<Sum>m\<leftarrow>filter (\<lambda>m. typeid m = typeId e) lines. toNumber (quantity m) 0 * runs)) \<and>
     (\<forall>k. 0 < (\<Sum>m\<leftarrow>filter (\<lambda>m. typeid m = k) lines. toNumber (quantity m) 0 * runs) \<longrightarrow>
          (\<exists>e \<in> set out. typeId e = k))"
proof -
  let ?lines = "direct_lines R (Some i)"
  let ?ts = "totals (walk R 0 (Some i) runs 0 \<lparr>totals = [], visited = {}\<rparr>)"
  let ?out = "expandToRawTotals R (Some i) runs 0"
  let ?total = "\<lambda>k. (\<Sum>m\<leftarrow>filter (\<lambda>m. typeid m = k) ?lines. toNumber (quantity m) 0 * runs)"
  have out: "?out = map (\<lambda>(k, v). \<lparr>name = name v, qty = qty v, typeId = k\<rparr>)
                        (filter (\<lambda>(k, v). qty v > 0) ?ts)"
    by (simp add: expandToRawTotals_def Let_def)
  have d: "distinct (map fst ?ts)"
    by (simp add: walk_root_depth0 fold_leaf_distinct)
  have q: "(case map_of ?ts k of None \<Rightarrow> 0 | Some v \<Rightarrow> qty v) = ?total k" for k
    by (simp add: walk_root_depth0 fold_leaf_qty)
  have 1: "distinct (map typeId ?out)"
    unfolding out by (rule expand_distinct [OF d])
  have 2: "0 < qty e \<and> qty e = ?total (typeId e)" if "e \<in> set ?out" for e
  proof -
    from that obtain v where "map_of ?ts (typeId e) = Some v" "0 < qty v" "qty e = qty v"
      unfolding out expand_set [OF d] by blast
    with q [of "typeId e"] show ?thesis by simp
  qed
  have 3: "\<exists>e \<in> set ?out. typeId e = k" if "0 < ?total k" for k
  proof -
    from that q [of k] obtain v where v: "map_of ?ts k = Some v" "0 < qty v"
      by (cases "map_of ?ts k") auto
    let ?e = "\<lparr>name = name v, qty = qty v, typeId = k\<rparr>"
    have "?e \<in> set ?out" unfolding out expand_set [OF d] using v by simp
    then show ?thesis by (intro bexI [of _ ?e]) simp_all
  qed
  from 1 2 3 show ?thesis by (simp only: Let_def) blast
qed

lemma pill_lines:
  "direct_lines pill_repo (Some 1) = [line 2 ''Gas'' 5, line 3 ''Water'' 0, line 2 ''Gas'' 7]"
  by (simp add: direct_lines_def pill_repo_def mk_bp_def pickBlueprintActivity_def truthy_mats_def
      truthy_act_def activity_lines_def)

lemma pill_out:
  "expandToRawTotals pill_repo (Some 1) 3 0 = [\<lparr>name = ''Gas'', qty = 36, typeId = Some 2\<rparr>]"
  by code_simp

theorem expandToRawTotals_depth0_witness:
  "expandToRawTotals pill_repo (Some 1) 3 0 = [\<lparr>name = ''Gas'', qty = 36, typeId = Some 2\<rparr>] \<and>
   direct_lines pill_repo (Some 1) = [line 2 ''Gas'' 5, line 3 ''Water'' 0, line 2 ''Gas'' 7] \<and>
   (\<Sum>m\<leftarrow>filter (\<lambda>m. typeid m = Some 2) (direct_lines pill_repo (Some 1)).
        toNumber (quantity m) 0 * 3) = 36"
proof -
  let ?e = "\<lparr>name = ''Gas'', qty = 36, typeId = Some 2\<rparr>"
  have "?e \<in> set (expandToRawTotals pill_repo (Some 1) 3 0)"
    by (simp add: pill_out)
  with expandToRawTotals_depth0 [of pill_repo 1 3]
  have "qty ?e = (\<Sum>m\<leftarrow>filter (\<lambda>m. typeid m = typeId ?e) (direct_lines pill_repo (Some 1)).
                    toNumber (quantity m) 0 * 3)"
    unfolding Let_def by blast
  then have "(\<Sum>m\<leftarrow>filter (\<lambda>m. typeid m = Some 2) (direct_lines pill_repo (Some 1)).
        toNumber (quantity m) 0 * 3) = 36"
    by simp
  with pill_out pill_lines show ?thesis by simp
qed

text \<open>
  C1 as stated promises one entry per direct input line with quantity
  \<open>quantityPerRun * runs\<close>. The water line has \<open>0 * 1 = 0\<close> and gets no entry: the result
  keeps the entries with \<^verbatim>\<open>qty > 0\<close> only.
\<close>

theorem expandToRawTotals_drops_zero_quantity_line:
  "direct_lines pill_repo (Some 1) = [line 2 ''Gas'' 5, line 3 ''Water'' 0, line 2 ''Gas'' 7] \<and>
   expandToRawTotals pill_repo (Some 1) 1 0 = [\<lparr>name = ''Gas'', qty = 12, typeId = Some 2\<rparr>] \<and>
   toNumber (quantity (line 3 ''Water'' 0)) 0 * 1 = 0"
proof -
  have "expandToRawTotals pill_repo (Some 1) 1 0 = [\<lparr>name = ''Gas'', qty = 12, typeId = Some 2\<rparr>]"
    by code_simp
  then show ?thesis by (simp add: pill_lines) (simp add: line_def toNumber_def)
qed






text \<open>
  A child whose blueprint cannot be fetched, or has no usable activity, is recorded by the
  parent's loop as a leaf with the full demand.
\<close>

lemma walk_mats_child_without_recipe:
  assumes "R (typeid m) = None \<or>
           (\<exists>b. R (typeid m) = Some b \<and> \<not> truthy_act (pickBlueprintActivity b))"
  shows "walk_mats R maxDepth (m # ms) runCount depth st
           = walk_mats R maxDepth ms runCount depth (leaf_line runCount m st)"
  using assms by (auto simp: Let_def leaf_line_def)

text \<open>
  C3. The claim says that a non-root node whose chosen activity has no input lines is
  recorded with its full incoming demand. The code records it with quantity 0: the pill
  needs ten pure boosters, the pure booster's blueprint has an activity without lines, and
  the walk leaves a zero-quantity entry for it, so the result is empty. When the pure
  booster has no blueprint at all, the result lists the ten.
\<close>

theorem walk_empty_activity_loses_demand:
  "walk empty_mats_repo 1 (Some 1) 1 0 \<lparr>totals = [], visited = {}\<rparr>
     = \<lparr>totals = [(Some 2, \<lparr>name = ''Pure Booster'', qty = 0\<rparr>)], visited = {(2, 1), (1, 0)}\<rparr> \<and>
   expandToRawTotals empty_mats_repo (Some 1) 1 1 = [] \<and>
   expandToRawTotals no_child_repo (Some 1) 1 1
     = [\<lparr>name = ''Pure Booster'', qty = 10, typeId = Some 2\<rparr>]"
  by code_simp

end
